theory Spec2Isabelle
  imports Main
begin

section \<open>Python values and exceptions\<close>

text \<open>
  The operator \<open>MSSQLToGCSOperator\<close> of \<open>mssql_to_gcs.py\<close> is dynamically typed: its
  methods take whatever the ODBC driver puts into \<open>cursor.description\<close>. The values of
  the model are the ones such a description holds: \<open>None\<close>, booleans, integers, strings,
  tuples, and class objects (the driver reports a column's type as a Python class such as
  \<open>int\<close>, \<open>str\<close> or \<open>decimal.Decimal\<close>). A class object is modelled by its
  \<open>__name__\<close>, the one attribute the source reads from it. \<open>PMethod f\<close> is a bound
  method whose function is named \<open>f\<close>: what the attribute access \<open>self.type_map\<close>
  evaluates to, since the class defines \<open>type_map\<close> under \<open>@classmethod\<close>.

  A string is a list of characters, one \<open>char\<close> for each code point below 256.
\<close>

datatype pyval =
    PNone
  | PBool bool
  | PInt int
  | PStr string
  | PTuple "pyval list"
  | PClass string
  | PMethod string

text \<open>
  An exception that leaves a method is the \<open>Inl\<close> value of its result. \<open>DriverError\<close>
  stands for whatever the ODBC hook or the driver raises; the operator passes it on.
\<close>

datatype error = AttributeError | IndexError | KeyError | TypeError | DriverError

fun and_then :: "error + 'a \<Rightarrow> ('a \<Rightarrow> error + 'b) \<Rightarrow> error + 'b" where
  "and_then (Inl e) f = Inl e"
| "and_then (Inr x) f = f x"

subsection \<open>The built-in operations the source uses\<close>

text \<open>\<open>x[i]\<close> for a literal index \<open>i \<ge> 0\<close>.\<close>

fun subscript :: "pyval \<Rightarrow> nat \<Rightarrow> error + pyval" where
  "subscript (PTuple xs) i = (if i < length xs then Inr (xs ! i) else Inl IndexError)"
| "subscript (PStr s) i = (if i < length s then Inr (PStr [s ! i]) else Inl IndexError)"
| "subscript PNone i = Inl TypeError"
| "subscript (PBool b) i = Inl TypeError"
| "subscript (PInt n) i = Inl TypeError"
| "subscript (PClass c) i = Inl TypeError"
| "subscript (PMethod f) i = Inl TypeError"

text \<open>\<open>x.__name__\<close>: classes and methods carry a name, the other values do not.\<close>

fun attr_name :: "pyval \<Rightarrow> error + string" where
  "attr_name (PClass c) = Inr c"
| "attr_name (PMethod f) = Inr f"
| "attr_name PNone = Inl AttributeError"
| "attr_name (PBool b) = Inl AttributeError"
| "attr_name (PInt n) = Inl AttributeError"
| "attr_name (PStr s) = Inl AttributeError"
| "attr_name (PTuple xs) = Inl AttributeError"

text \<open>
  \<open>x.get\<close>: the attribute lookup that precedes the call \<open>x.get(key, default)\<close>. A
  dictionary has this attribute; none of the values above has it, a bound method
  included. The result, when there is one, is the callable taking key and default.
\<close>

fun attr_get :: "pyval \<Rightarrow> error + (pyval \<Rightarrow> pyval \<Rightarrow> error + pyval)" where
  "attr_get (PMethod f) = Inl AttributeError"
| "attr_get (PClass c) = Inl AttributeError"
| "attr_get PNone = Inl AttributeError"
| "attr_get (PBool b) = Inl AttributeError"
| "attr_get (PInt n) = Inl AttributeError"
| "attr_get (PStr s) = Inl AttributeError"
| "attr_get (PTuple xs) = Inl AttributeError"

text \<open>
  \<open>str.lower()\<close> and \<open>str.upper()\<close>, character by character. Below code point 256 the
  cased letters are A-Z and a-z and the Latin-1 letters 192-222 and 224-254 (without the
  signs 215 and 247), 32 apart. The upper-case forms of the code points 181, 223 and 255
  lie outside this range and are not modelled: \<open>char_upper\<close> leaves them as they are.
\<close>

definition char_lower :: "char \<Rightarrow> char" where
  "char_lower c =
     (let n = (of_char c :: nat)
      in if (65 \<le> n \<and> n \<le> 90) \<or> (192 \<le> n \<and> n \<le> 222 \<and> n \<noteq> 215)
         then char_of (n + 32) else c)"

definition char_upper :: "char \<Rightarrow> char" where
  "char_upper c =
     (let n = (of_char c :: nat)
      in if (97 \<le> n \<and> n \<le> 122) \<or> (224 \<le> n \<and> n \<le> 254 \<and> n \<noteq> 247)
         then char_of (n - 32) else c)"

definition str_lower :: "string \<Rightarrow> string" where
  "str_lower s = map char_lower s"

definition str_upper :: "string \<Rightarrow> string" where
  "str_upper s = map char_upper s"

text \<open>
  \<open>s.replace(old, new)\<close> for one-character \<open>old\<close> and \<open>new\<close>, as the source calls it:
  every occurrence of \<open>old\<close> becomes \<open>new\<close>.
\<close>

definition str_replace :: "char \<Rightarrow> char \<Rightarrow> string \<Rightarrow> string" where
  "str_replace old new s = map (\<lambda>c. if c = old then new else c) s"

text \<open>The method call \<open>x.replace(old, new)\<close> on any value: only a string has the method.\<close>

fun call_replace :: "pyval \<Rightarrow> char \<Rightarrow> char \<Rightarrow> error + pyval" where
  "call_replace (PStr s) old new = Inr (PStr (str_replace old new s))"
| "call_replace PNone old new = Inl AttributeError"
| "call_replace (PBool b) old new = Inl AttributeError"
| "call_replace (PInt n) old new = Inl AttributeError"
| "call_replace (PTuple xs) old new = Inl AttributeError"
| "call_replace (PClass c) old new = Inl AttributeError"
| "call_replace (PMethod f) old new = Inl AttributeError"

text \<open>Truth value of a value in a condition.\<close>

fun truthy :: "pyval \<Rightarrow> bool" where
  "truthy PNone = False"
| "truthy (PBool b) = b"
| "truthy (PInt n) = (n \<noteq> 0)"
| "truthy (PStr s) = (s \<noteq> [])"
| "truthy (PTuple xs) = (xs \<noteq> [])"
| "truthy (PClass c) = True"
| "truthy (PMethod f) = True"

text \<open>A dictionary with string keys, in insertion order: \<open>k in d\<close> and \<open>d[k]\<close>.\<close>

definition dict_contains :: "(string \<times> 'v) list \<Rightarrow> string \<Rightarrow> bool" where
  "dict_contains d k = (map_of d k \<noteq> None)"

definition dict_index :: "(string \<times> 'v) list \<Rightarrow> string \<Rightarrow> error + 'v" where
  "dict_index d k = (case map_of d k of None \<Rightarrow> Inl KeyError | Some v \<Rightarrow> Inr v)"

section \<open>The operator\<close>

text \<open>The instance attributes the methods read.\<close>

record operator =
  mssql_conn_id :: string
  sql :: string

subsection \<open>\<open>query\<close>\<close>

text \<open>
  The ODBC hook, its engine, the raw connection and the cursor are not part of the
  operator; \<open>query\<close> is modelled over any implementation of them. Each call may raise.
  \<open>execute\<close> changes the cursor it is called on: it returns the cursor after the
  statement has run.
\<close>

record ('h, 'e, 'c, 'k) odbc =
  OdbcHook :: "string \<Rightarrow> error + 'h"
  get_conn :: "'h \<Rightarrow> error + 'e"
  raw_connection :: "'e \<Rightarrow> error + 'c"
  cursor :: "'c \<Rightarrow> error + 'k"
  execute :: "'k \<Rightarrow> string \<Rightarrow> error + 'k"

text \<open>
  The body of \<open>query\<close> ends with the statement \<open>cursor.execute(self.sql)\<close> and has no
  \<open>return\<close>, so the method's value is \<open>None\<close>. The result is the pair of the returned
  value (\<open>None\<close>, or \<open>Some\<close> cursor) and the cursor the statement ran on.
\<close>

definition query :: "('h, 'e, 'c, 'k) odbc \<Rightarrow> operator \<Rightarrow> error + ('k option \<times> 'k)" where
  "query drv self =
     and_then (OdbcHook drv (mssql_conn_id self)) (\<lambda>mssql.
     and_then (get_conn drv mssql) (\<lambda>engine.
     and_then (raw_connection drv engine) (\<lambda>conn.
     and_then (cursor drv conn) (\<lambda>cur.
     and_then (execute drv cur (sql self)) (\<lambda>cur'.
     Inr (None, cur'))))))"

subsection \<open>\<open>type_map\<close>\<close>

definition schema_dict :: "(string \<times> string) list" where
  "schema_dict =
     [(''int'', ''INTEGER''),
      (''tinyint'', ''INTEGER''),
      (''smallint'', ''INTEGER''),
      (''bigint'', ''INTEGER''),
      (''bit'', ''BOOLEAN''),
      (''bool'', ''BOOLEAN''),
      (''char'', ''STRING''),
      (''varchar'', ''STRING''),
      (''text'', ''STRING''),
      (''nchar'', ''STRING''),
      (''nvarchar'', ''STRING''),
      (''ntext'', ''STRING''),
      (''uuid'', ''STRING''),
      (''str'', ''STRING''),
      (''money'', ''NUMERIC''),
      (''numeric'', ''NUMERIC''),
      (''smallmoney'', ''NUMERIC''),
      (''decimal'', ''NUMERIC''),
      (''datetime'', ''DATETIME''),
      (''datetime2'', ''DATETIME''),
      (''smalldatetime'', ''DATETIME''),
      (''date'', ''DATE''),
      (''time'', ''TIME''),
      (''float'', ''FLOAT''),
      (''real'', ''FLOAT''),
      (''double'', ''FLOAT'')]"

definition type_map :: "pyval \<Rightarrow> error + string" where
  "type_map mssql_type =
     and_then (attr_name mssql_type) (\<lambda>val.
       if dict_contains schema_dict (str_lower val)
       then dict_index schema_dict (str_lower val)
       else Inr ''STRING'')"

subsection \<open>\<open>field_to_bigquery\<close>\<close>

text \<open>
  The value of \<open>self.type_map\<close>: the class attribute \<open>type_map\<close> is the class method
  above, so the access yields a bound method.
\<close>

definition self_type_map :: pyval where
  "self_type_map = PMethod ''type_map''"

text \<open>
  The dictionary display is evaluated entry by entry, left to right: \<open>field[0]\<close> and its
  \<open>replace\<close>; then \<open>self.type_map.get\<close>, its arguments \<open>field[1]\<close> and \<open>"STRING"\<close>, and
  the call; then \<open>field[6]\<close> and its truth value. The result is the dictionary as the
  list of its entries.
\<close>

definition field_to_bigquery :: "pyval \<Rightarrow> error + (string \<times> pyval) list" where
  "field_to_bigquery field =
     and_then (subscript field 0) (\<lambda>f0.
     and_then (call_replace f0 (CHR '' '') (CHR ''_'')) (\<lambda>name.
     and_then (attr_get self_type_map) (\<lambda>get.
     and_then (subscript field 1) (\<lambda>f1.
     and_then (get f1 (PStr ''STRING'')) (\<lambda>ty.
     and_then (subscript field 6) (\<lambda>f6.
     Inr [(''name'', name),
          (''type'', ty),
          (''mode'', PStr (if truthy f6 then ''NULLABLE'' else ''REQUIRED''))]))))))"

subsection \<open>\<open>convert_type\<close>\<close>

definition convert_type :: "pyval \<Rightarrow> pyval \<Rightarrow> error + pyval" where
  "convert_type val schema_type = Inr val"

section \<open>The type mapping as the specification lists it\<close>

text \<open>
  The specification's lookup table, family by family, with \<open>STRING\<close> for every tag that
  is in no family. It is compared with \<open>type_map\<close> below.
\<close>

definition map_type :: "string \<Rightarrow> string" where
  "map_type tag =
     (if tag \<in> set [''int'', ''tinyint'', ''smallint'', ''bigint''] then ''INTEGER''
      else if tag \<in> set [''bit'', ''bool''] then ''BOOLEAN''
      else if tag \<in> set [''char'', ''varchar'', ''text'', ''nchar'', ''nvarchar'', ''ntext'',
                          ''uuid'', ''str''] then ''STRING''
      else if tag \<in> set [''money'', ''numeric'', ''smallmoney'', ''decimal''] then ''NUMERIC''
      else if tag \<in> set [''datetime'', ''datetime2'', ''smalldatetime''] then ''DATETIME''
      else if tag = ''date'' then ''DATE''
      else if tag = ''time'' then ''TIME''
      else if tag \<in> set [''float'', ''real'', ''double''] then ''FLOAT''
      else ''STRING'')"

section \<open>Properties\<close>

subsection \<open>Helper facts\<close>

lemma and_then_Inr_iff:
  "and_then m f = Inr y \<longleftrightarrow> (\<exists>x. m = Inr x \<and> f x = Inr y)"
  by (cases m) simp_all

lemma char_lower_upper: "char_lower (char_upper c) = char_lower c"
proof -
  have lt: "(of_char c :: nat) < 256" by simp
  show ?thesis
    unfolding char_lower_def char_upper_def Let_def
    using lt by (auto simp: char_of_eq_iff take_bit_eq_mod)
qed

lemma str_lower_upper: "str_lower (str_upper s) = str_lower s"
  by (simp add: str_lower_def str_upper_def char_lower_upper)

text \<open>The keys of the table are in lower case already.\<close>

lemma str_lower_key:
  "k \<in> set (map fst schema_dict) \<Longrightarrow> str_lower k = k"
  by (auto simp: schema_dict_def str_lower_def char_lower_def)

text \<open>The dictionary of the source holds the table of the specification.\<close>

lemma map_of_schema_dict:
  "map_of schema_dict k = (if dict_contains schema_dict k then Some (map_type k) else None)"
  by (simp add: schema_dict_def dict_contains_def map_type_def)

lemma dict_contains_schema_dict:
  "dict_contains schema_dict k \<longleftrightarrow> k \<in> set (map fst schema_dict)"
  by (simp add: schema_dict_def dict_contains_def)

lemma map_type_absent:
  "\<not> dict_contains schema_dict k \<Longrightarrow> map_type k = ''STRING''"
  by (simp add: schema_dict_def dict_contains_def map_type_def split: if_splits)

text \<open>The lookup \<open>schema_dict[k]\<close> is guarded by \<open>k in schema_dict\<close>: no \<open>KeyError\<close>.\<close>

lemma type_map_named:
  "attr_name x = Inr n \<Longrightarrow> type_map x = Inr (map_type (str_lower n))"
  by (simp add: type_map_def dict_index_def map_of_schema_dict map_type_absent)

lemma type_map_unnamed:
  "attr_name x = Inl e \<Longrightarrow> type_map x = Inl e"
  by (simp add: type_map_def)

text \<open>
  \<open>field_to_bigquery\<close> asks the bound method \<open>self.type_map\<close> for an attribute \<open>get\<close>.
  Whatever the column metadata, the method ends there at the latest.
\<close>

lemma field_to_bigquery_never_returns: "field_to_bigquery field \<noteq> Inr d"
  by (simp add: field_to_bigquery_def self_type_map_def and_then_Inr_iff)

lemma field_to_bigquery_named_column:
  "field_to_bigquery (PTuple (PStr n # rest)) = Inl AttributeError"
  by (simp add: field_to_bigquery_def self_type_map_def)

lemma field_to_bigquery_empty: "field_to_bigquery (PTuple []) = Inl IndexError"
  by (simp add: field_to_bigquery_def)

text \<open>The name entry is computed before that: spaces become underscores.\<close>

lemma str_replace_length: "length (str_replace old new s) = length s"
  by (simp add: str_replace_def)

lemma str_replace_nth:
  "i < length s \<Longrightarrow>
   str_replace old new s ! i = (if s ! i = old then new else s ! i)"
  by (simp add: str_replace_def)

lemma call_replace_Customer_ID:
  "call_replace (PStr ''Customer ID'') (CHR '' '') (CHR ''_'') = Inr (PStr ''Customer_ID'')"
  by (simp add: str_replace_def)

text \<open>Whenever \<open>query\<close> returns, the value it returns is \<open>None\<close>.\<close>

lemma query_returns_no_cursor: "query drv self \<noteq> Inr (Some k, k')"
  by (auto simp: query_def and_then_Inr_iff)

subsection \<open>\<open>query\<close>\<close>

text \<open>
  C1 (the code departs from it): \<open>query\<close> should execute the statement and return the
  resulting cursor. Over an ODBC layer in which every call succeeds, a cursor being the
  statement executed on it, \<open>query\<close> for the connection id \<open>mssql_default\<close> and the
  statement \<open>SELECT 1\<close> executes the statement and returns \<open>None\<close>.
\<close>

theorem query_returns_None:
  "query \<lparr>OdbcHook = (\<lambda>conn_id. Inr conn_id), get_conn = (\<lambda>hook. Inr hook),
          raw_connection = (\<lambda>engine. Inr engine), cursor = (\<lambda>conn. Inr None),
          execute = (\<lambda>cur stmt. Inr (Some stmt))\<rparr>
         \<lparr>mssql_conn_id = ''mssql_default'', sql = ''SELECT 1''\<rparr>
   = Inr (None, Some ''SELECT 1'')"
  by (simp add: query_def)

subsection \<open>\<open>type_map\<close>\<close>

text \<open>
  C3 (as amended): \<open>type_map\<close> is total on the arguments that carry a \<open>__name__\<close>, class
  objects and methods: the result is the destination tag the specification's table lists
  for the lower-cased name, \<open>STRING\<close> when the lower-cased name is in no family of the
  table, and no error is raised.
\<close>

theorem type_map_total_on_named:
  "type_map (PClass n) = Inr (map_type (str_lower n)) \<and>
   type_map (PMethod n) = Inr (map_type (str_lower n))"
  by (simp add: type_map_named)

text \<open>
  C3 as stated fails: the tag \<open>int\<close> of the table, passed as the string it is, does not
  map to \<open>INTEGER\<close>; \<open>type_map\<close> raises.
\<close>

theorem type_map_string_tag_counterexample:
  "type_map (PStr ''int'') = Inl AttributeError \<and> type_map (PStr ''int'') \<noteq> Inr ''INTEGER''"
  by (simp add: type_map_def)

text \<open>
  C4: for every tag \<open>T\<close> of the table, \<open>type_map\<close> gives \<open>T\<close> and the upper-cased \<open>T\<close>
  the same result. The tag reaches \<open>type_map\<close> as the name of a class object; both
  spellings then yield the destination tag the table lists for \<open>T\<close>. Passed as plain
  strings, both spellings have the same outcome as well.
\<close>

theorem type_map_case_insensitive:
  "T \<in> set (map fst schema_dict) \<Longrightarrow>
   type_map (PClass (str_upper T)) = type_map (PClass T) \<and>
   type_map (PClass T) = Inr (map_type T) \<and>
   type_map (PStr (str_upper T)) = type_map (PStr T)"
  by (simp add: type_map_named str_lower_upper str_lower_key type_map_unnamed)

theorem type_map_case_insensitive_witness:
  "''datetime2'' \<in> set (map fst schema_dict) \<and>
   type_map (PClass (str_upper ''datetime2'')) = Inr ''DATETIME'' \<and>
   type_map (PClass ''datetime2'') = Inr ''DATETIME''"
  using type_map_case_insensitive [of "''datetime2''"]
  by (simp add: schema_dict_def map_type_def)

text \<open>
  C10: \<open>type_map\<close> resolves its argument through the argument's \<open>__name__\<close>. For an
  argument that carries one, the result is the table's entry for the lower-cased name,
  \<open>STRING\<close> when the table has none. For an argument without one (a plain string tag,
  \<open>None\<close>, a boolean, an integer, a tuple) it raises an attribute error.
\<close>

theorem type_map_reads_name:
  "type_map (PClass n) =
     Inr (case map_of schema_dict (str_lower n) of Some d \<Rightarrow> d | None \<Rightarrow> ''STRING'') \<and>
   type_map (PMethod n) =
     Inr (case map_of schema_dict (str_lower n) of Some d \<Rightarrow> d | None \<Rightarrow> ''STRING'') \<and>
   type_map (PStr s) = Inl AttributeError \<and>
   type_map PNone = Inl AttributeError \<and>
   type_map (PBool b) = Inl AttributeError \<and>
   type_map (PInt i) = Inl AttributeError \<and>
   type_map (PTuple xs) = Inl AttributeError"
  by (simp add: type_map_def dict_index_def dict_contains_def split: option.split)

subsection \<open>\<open>field_to_bigquery\<close>\<close>

text \<open>
  C2 (the code departs from it): for well-formed column metadata \<open>field_to_bigquery\<close>
  should return a descriptor whose type entry is \<open>type_map\<close> of the declared type. For
  the metadata \<open>('id', int, None, 10, 10, 0, False)\<close> it raises an attribute error.
\<close>

theorem field_to_bigquery_well_formed_raises:
  "field_to_bigquery
     (PTuple [PStr ''id'', PClass ''int'', PNone, PInt 10, PInt 10, PInt 0, PBool False])
   = Inl AttributeError"
  by (simp add: field_to_bigquery_named_column)

text \<open>
  C5 (the code departs from it): the descriptor's name should be the column name with
  every space replaced by an underscore. For the column \<open>Customer ID\<close> no descriptor is
  produced: \<open>field_to_bigquery\<close> raises an attribute error.
\<close>

theorem field_to_bigquery_Customer_ID_raises:
  "field_to_bigquery
     (PTuple [PStr ''Customer ID'', PClass ''str'', PNone, PInt 255, PInt 255, PInt 0,
              PBool True])
   = Inl AttributeError"
  by (simp add: field_to_bigquery_named_column)

text \<open>
  C6 (the code departs from it): the descriptor's mode should be \<open>NULLABLE\<close> or
  \<open>REQUIRED\<close> after the flag at position 6. For the metadata
  \<open>('Total', Decimal, None, 18, 18, 2, False)\<close> no descriptor with mode \<open>REQUIRED\<close> is
  produced: \<open>field_to_bigquery\<close> raises an attribute error.
\<close>

theorem field_to_bigquery_not_nullable_raises:
  "field_to_bigquery
     (PTuple [PStr ''Total'', PClass ''Decimal'', PNone, PInt 18, PInt 18, PInt 2,
              PBool False])
   = Inl AttributeError"
  by (simp add: field_to_bigquery_named_column)

text \<open>
  C7 (the code departs from it): the metadata \<open>('Order Date', 'datetime2', ..., True)\<close>
  should yield the descriptor with name \<open>Order_Date\<close>, type \<open>DATETIME\<close> and mode
  \<open>NULLABLE\<close>. \<open>field_to_bigquery\<close> raises an attribute error instead.
\<close>

theorem field_to_bigquery_Order_Date_raises:
  "field_to_bigquery
     (PTuple [PStr ''Order Date'', PStr ''datetime2'', PNone, PNone, PNone, PNone,
              PBool True])
   = Inl AttributeError"
  by (simp add: field_to_bigquery_named_column)

text \<open>
  C9 (the code departs from it): metadata shorter than 7 elements should make
  \<open>field_to_bigquery\<close> fail with an index error. For the two-element metadata
  \<open>('Total', Decimal)\<close> it fails with an attribute error, before position 6 is read.
\<close>

theorem field_to_bigquery_short_tuple_raises:
  "field_to_bigquery (PTuple [PStr ''Total'', PClass ''Decimal'']) = Inl AttributeError \<and>
   field_to_bigquery (PTuple [PStr ''Total'', PClass ''Decimal'']) \<noteq> Inl IndexError"
  by (simp add: field_to_bigquery_named_column)

subsection \<open>\<open>convert_type\<close>\<close>

text \<open>
  C8: for every value \<open>v\<close> and every destination schema type \<open>t\<close>, \<open>convert_type\<close>
  returns \<open>v\<close> unchanged; it raises for no input.
\<close>

theorem convert_type_identity: "convert_type v t = Inr v"
  by (simp add: convert_type_def)

end
